theory Spec2Isabelle
  imports Main "HOL-Library.Word"
begin

unbundle bit_operations_syntax

section \<open>A shallow embedding of the LP50XX driver (LP50XX.cpp, LP50XX.h)\<close>

text \<open>
  The driver is a class with four private members and member functions that call the
  Arduino pin and timing primitives and the I2C primitives of I2C_coms.h. The model
  threads a \<open>world\<close> through every member function: the object (\<open>self\<close>) and the
  list of primitive calls made so far (\<open>trace\<close>), oldest first.
\<close>

subsection \<open>Data\<close>

type_synonym u8 = "8 word"

text \<open>\<open>enum LED_Configuration { RGB, GRB, BGR, RBG, GBR, BRG }\<close>\<close>

datatype LED_Configuration = RGB | GRB | BGR | RBG | GBR | BRG

text \<open>
  \<open>enum EAddressType { Normal, Broadcast }\<close>. \<open>getAddress\<close> switches on it with a
  \<open>default\<close> label, so the model keeps the enumeration's integer value: every value
  other than the two enumerators is a value the \<open>default\<close> label receives.
\<close>

type_synonym EAddressType = int

definition Normal :: EAddressType where "Normal = 0"
definition Broadcast :: EAddressType where "Broadcast = 1"

text \<open>\<open>enum LP50XX_Configuration\<close>, the values the setters are documented to take.\<close>

definition LED_GLOBAL_ON :: u8 where "LED_GLOBAL_ON = push_bit 0 0"
definition LED_GLOBAL_OFF :: u8 where "LED_GLOBAL_OFF = push_bit 0 1"
definition MAX_CURRENT_25mA :: u8 where "MAX_CURRENT_25mA = push_bit 1 0"
definition MAX_CURRENT_35mA :: u8 where "MAX_CURRENT_35mA = push_bit 1 1"
definition PWM_DITHERING_OFF :: u8 where "PWM_DITHERING_OFF = push_bit 2 0"
definition PWM_DITHERING_ON :: u8 where "PWM_DITHERING_ON = push_bit 2 1"
definition AUTO_INC_OFF :: u8 where "AUTO_INC_OFF = push_bit 3 0"
definition AUTO_INC_ON :: u8 where "AUTO_INC_ON = push_bit 3 1"
definition POWER_SAVE_OFF :: u8 where "POWER_SAVE_OFF = push_bit 4 0"
definition POWER_SAVE_ON :: u8 where "POWER_SAVE_ON = push_bit 4 1"
definition LOG_SCALE_OFF :: u8 where "LOG_SCALE_OFF = push_bit 5 0"
definition LOG_SCALE_ON :: u8 where "LOG_SCALE_ON = push_bit 5 1"

text \<open>
  The register macros. A macro is an \<open>int\<close> literal, and the register argument of a
  primitive call is a C expression of type \<open>int\<close> (\<open>LED0_BRIGHTNESS + led\<close>,
  \<open>OUT0_COLOR + (led * 3)\<close>, with \<open>led\<close> promoted), so registers are \<open>int\<close> here:
  the value the caller computes. What the primitive's parameter type makes of it is
  decided in I2C_coms, not in this file.
\<close>

definition DEVICE_CONFIG0 :: int where "DEVICE_CONFIG0 = 0x00"
definition DEVICE_CONFIG1 :: int where "DEVICE_CONFIG1 = 0x01"
definition LED_CONFIG0 :: int where "LED_CONFIG0 = 0x02"
definition BANK_BRIGHTNESS :: int where "BANK_BRIGHTNESS = 0x03"
definition BANK_A_COLOR :: int where "BANK_A_COLOR = 0x04"
definition BANK_B_COLOR :: int where "BANK_B_COLOR = 0x05"
definition BANK_C_COLOR :: int where "BANK_C_COLOR = 0x06"
definition LED0_BRIGHTNESS :: int where "LED0_BRIGHTNESS = 0x07"
definition OUT0_COLOR :: int where "OUT0_COLOR = 0x0F"
definition RESET_REGISTERS :: int where "RESET_REGISTERS = 0x27"

definition DEFAULT_ADDRESS :: u8 where "DEFAULT_ADDRESS = 0x14"
definition BROADCAST_ADDRESS :: u8 where "BROADCAST_ADDRESS = 0x0C"

text \<open>The private members of \<open>class LP50XX\<close>.\<close>

record LP50XX =
  i2c_address :: u8
  i2c_address_broadcast :: u8
  enable_pin :: u8
  led_configuration :: LED_Configuration

subsection \<open>The primitives the driver calls\<close>

datatype pin_level = LOW | HIGH
datatype pin_mode = INPUT | OUTPUT

text \<open>
  One event per primitive call, with the arguments of the call. A read also records the
  byte the primitive left in the caller's buffer.
\<close>

datatype event =
    Ev_i2c_init
  | Ev_pinMode u8 pin_mode
  | Ev_digitalWrite u8 pin_level
  | Ev_delayMicroseconds nat
  | Ev_delay nat
  | Ev_i2c_write_byte u8 int u8
  | Ev_i2c_read_byte u8 int u8
  | Ev_i2c_write_multi u8 int "u8 list"

record world =
  self :: LP50XX
  trace :: "event list"

text \<open>
  I2C_coms is not part of the source file, so the device on the bus is a parameter:
  what a read leaves in the buffer, and whether a read or a write went through, each as
  a function of everything that happened before and of the call's arguments. Nothing is
  assumed of these three functions.
\<close>

record bus =
  read_reply :: "event list \<Rightarrow> u8 \<Rightarrow> int \<Rightarrow> u8"
  read_status :: "event list \<Rightarrow> u8 \<Rightarrow> int \<Rightarrow> bool"
  write_status :: "event list \<Rightarrow> u8 \<Rightarrow> int \<Rightarrow> u8 list \<Rightarrow> bool"

definition emit :: "event \<Rightarrow> world \<Rightarrow> world" where
  "emit e w = w\<lparr>trace := trace w @ [e]\<rparr>"

definition i2c_init :: "world \<Rightarrow> world" where
  "i2c_init w = emit Ev_i2c_init w"

definition pinMode :: "u8 \<Rightarrow> pin_mode \<Rightarrow> world \<Rightarrow> world" where
  "pinMode pin m w = emit (Ev_pinMode pin m) w"

definition digitalWrite :: "u8 \<Rightarrow> pin_level \<Rightarrow> world \<Rightarrow> world" where
  "digitalWrite pin l w = emit (Ev_digitalWrite pin l) w"

definition delayMicroseconds :: "nat \<Rightarrow> world \<Rightarrow> world" where
  "delayMicroseconds us w = emit (Ev_delayMicroseconds us) w"

definition delay :: "nat \<Rightarrow> world \<Rightarrow> world" where
  "delay ms w = emit (Ev_delay ms) w"

definition i2c_write_byte :: "bus \<Rightarrow> u8 \<Rightarrow> int \<Rightarrow> u8 \<Rightarrow> world \<Rightarrow> bool \<times> world" where
  "i2c_write_byte b address reg data w =
     (write_status b (trace w) address reg [data],
      emit (Ev_i2c_write_byte address reg data) w)"

text \<open>The result is the status, the byte left in \<open>*data\<close>, and the world.\<close>

definition i2c_read_byte :: "bus \<Rightarrow> u8 \<Rightarrow> int \<Rightarrow> world \<Rightarrow> bool \<times> u8 \<times> world" where
  "i2c_read_byte b address reg w =
     (let v = read_reply b (trace w) address reg
      in (read_status b (trace w) address reg, v,
          emit (Ev_i2c_read_byte address reg v) w))"

definition i2c_write_multi ::
  "bus \<Rightarrow> u8 \<Rightarrow> int \<Rightarrow> u8 list \<Rightarrow> nat \<Rightarrow> world \<Rightarrow> bool \<times> world" where
  "i2c_write_multi b address reg data len w =
     (write_status b (trace w) address reg (take len data),
      emit (Ev_i2c_write_multi address reg (take len data)) w)"

subsection \<open>Helper functions\<close>

text \<open>
  \<open>getAddress\<close>: \<open>case Broadcast\<close> gives the broadcast address; \<open>case Normal\<close> and
  \<open>default\<close> share one body.
\<close>

definition getAddress :: "EAddressType \<Rightarrow> world \<Rightarrow> u8 \<times> world" where
  "getAddress addressType w =
     (if addressType = Broadcast then (i2c_address_broadcast (self w), w)
      else (i2c_address (self w), w))"

subsection \<open>Initialisation functions\<close>

definition Begin :: "bus \<Rightarrow> u8 \<Rightarrow> world \<Rightarrow> bool \<times> world" where
  "Begin b i2cAddress w =
     (let w1 = i2c_init w;
          w2 = w1\<lparr>self := (self w1)\<lparr>i2c_address := i2cAddress\<rparr>\<rparr>;
          w3 = (if enable_pin (self w2) \<noteq> 0xFF
                then digitalWrite (enable_pin (self w2)) HIGH w2 else w2);
          w4 = delayMicroseconds 500 w3;
          (st, w5) = i2c_write_byte b (i2c_address (self w4)) DEVICE_CONFIG0 (push_bit 6 1) w4
      in (True, w5))"

definition ResetRegisters :: "bus \<Rightarrow> EAddressType \<Rightarrow> world \<Rightarrow> world" where
  "ResetRegisters b addressType w =
     (let (a, w1) = getAddress addressType w
      in snd (i2c_write_byte b a RESET_REGISTERS 0xFF w1))"

definition Reset :: "bus \<Rightarrow> world \<Rightarrow> world" where
  "Reset b w =
     (let w1 = (if enable_pin (self w) \<noteq> 0xFF
                then (let u1 = digitalWrite (enable_pin (self w)) LOW w;
                          u2 = delay 10 u1;
                          u3 = digitalWrite (enable_pin (self u2)) HIGH u2
                      in delayMicroseconds 500 u3)
                else w);
          w2 = ResetRegisters b Normal w1
      in snd (i2c_write_byte b (i2c_address (self w2)) DEVICE_CONFIG0 (push_bit 6 1) w2))"

subsection \<open>Configuration functions\<close>

definition Configure :: "bus \<Rightarrow> u8 \<Rightarrow> EAddressType \<Rightarrow> world \<Rightarrow> world" where
  "Configure b configuration addressType w =
     (let (a, w1) = getAddress addressType w
      in snd (i2c_write_byte b a DEVICE_CONFIG1 (configuration AND 0x3F) w1))"

definition SetScaling :: "bus \<Rightarrow> u8 \<Rightarrow> world \<Rightarrow> world" where
  "SetScaling b scaling w =
     (let (st, buff, w1) = i2c_read_byte b (i2c_address (self w)) DEVICE_CONFIG1 w;
          scaling1 = scaling AND push_bit 5 1;
          buff1 = (if drop_bit 5 scaling1 AND 1 \<noteq> 0 then buff OR push_bit 5 1
                   else buff AND NOT (push_bit 5 1))
      in snd (i2c_write_byte b (i2c_address (self w1)) DEVICE_CONFIG1 buff1 w1))"

definition SetPowerSaving :: "bus \<Rightarrow> u8 \<Rightarrow> world \<Rightarrow> world" where
  "SetPowerSaving b powerSave w =
     (let (st, buff, w1) = i2c_read_byte b (i2c_address (self w)) DEVICE_CONFIG1 w;
          powerSave1 = powerSave AND push_bit 4 1;
          buff1 = (if drop_bit 4 powerSave1 AND 1 \<noteq> 0 then buff OR push_bit 4 1
                   else buff AND NOT (push_bit 4 1))
      in snd (i2c_write_byte b (i2c_address (self w1)) DEVICE_CONFIG1 buff1 w1))"

definition SetAutoIncrement :: "bus \<Rightarrow> u8 \<Rightarrow> world \<Rightarrow> world" where
  "SetAutoIncrement b autoInc w =
     (let (st, buff, w1) = i2c_read_byte b (i2c_address (self w)) DEVICE_CONFIG1 w;
          autoInc1 = autoInc AND push_bit 3 1;
          buff1 = (if drop_bit 3 autoInc1 AND 1 \<noteq> 0 then buff OR push_bit 3 1
                   else buff AND NOT (push_bit 3 1))
      in snd (i2c_write_byte b (i2c_address (self w1)) DEVICE_CONFIG1 buff1 w1))"

definition SetPWMDithering :: "bus \<Rightarrow> u8 \<Rightarrow> world \<Rightarrow> world" where
  "SetPWMDithering b dithering w =
     (let (st, buff, w1) = i2c_read_byte b (i2c_address (self w)) DEVICE_CONFIG1 w;
          dithering1 = dithering AND push_bit 2 1;
          buff1 = (if drop_bit 2 dithering1 AND 1 \<noteq> 0 then buff OR push_bit 2 1
                   else buff AND NOT (push_bit 2 1))
      in snd (i2c_write_byte b (i2c_address (self w1)) DEVICE_CONFIG1 buff1 w1))"

definition SetMaxCurrentOption :: "bus \<Rightarrow> u8 \<Rightarrow> world \<Rightarrow> world" where
  "SetMaxCurrentOption b option w =
     (let (st, buff, w1) = i2c_read_byte b (i2c_address (self w)) DEVICE_CONFIG1 w;
          option1 = option AND push_bit 1 1;
          buff1 = (if drop_bit 1 option1 AND 1 \<noteq> 0 then buff OR push_bit 1 1
                   else buff AND NOT (push_bit 1 1))
      in snd (i2c_write_byte b (i2c_address (self w1)) DEVICE_CONFIG1 buff1 w1))"

definition SetGlobalLedOff :: "bus \<Rightarrow> u8 \<Rightarrow> world \<Rightarrow> world" where
  "SetGlobalLedOff b val w =
     (let (st, buff, w1) = i2c_read_byte b (i2c_address (self w)) DEVICE_CONFIG1 w;
          val1 = val AND push_bit 0 1;
          buff1 = (if drop_bit 0 val1 AND 1 \<noteq> 0 then buff OR push_bit 0 1
                   else buff AND NOT (push_bit 0 1))
      in snd (i2c_write_byte b (i2c_address (self w1)) DEVICE_CONFIG1 buff1 w1))"

definition SetEnablePin :: "u8 \<Rightarrow> world \<Rightarrow> world" where
  "SetEnablePin enablePin w =
     (let w1 = pinMode enablePin OUTPUT w
      in w1\<lparr>self := (self w1)\<lparr>enable_pin := enablePin\<rparr>\<rparr>)"

definition SetLEDConfiguration :: "LED_Configuration \<Rightarrow> world \<Rightarrow> world" where
  "SetLEDConfiguration ledConfiguration w =
     w\<lparr>self := (self w)\<lparr>led_configuration := ledConfiguration\<rparr>\<rparr>"

definition SetI2CAddress :: "u8 \<Rightarrow> world \<Rightarrow> world" where
  "SetI2CAddress address w = w\<lparr>self := (self w)\<lparr>i2c_address := address\<rparr>\<rparr>"

subsection \<open>Bank control functions\<close>

definition SetBankControl :: "bus \<Rightarrow> u8 \<Rightarrow> EAddressType \<Rightarrow> world \<Rightarrow> world" where
  "SetBankControl b leds addressType w =
     (let (a, w1) = getAddress addressType w
      in snd (i2c_write_byte b a LED_CONFIG0 leds w1))"

definition SetBankBrightness :: "bus \<Rightarrow> u8 \<Rightarrow> EAddressType \<Rightarrow> world \<Rightarrow> world" where
  "SetBankBrightness b brightness addressType w =
     (let (a, w1) = getAddress addressType w
      in snd (i2c_write_byte b a BANK_BRIGHTNESS brightness w1))"

definition SetBankColorA :: "bus \<Rightarrow> u8 \<Rightarrow> EAddressType \<Rightarrow> world \<Rightarrow> world" where
  "SetBankColorA b val addressType w =
     (let (a, w1) = getAddress addressType w
      in snd (i2c_write_byte b a BANK_A_COLOR val w1))"

definition SetBankColorB :: "bus \<Rightarrow> u8 \<Rightarrow> EAddressType \<Rightarrow> world \<Rightarrow> world" where
  "SetBankColorB b val addressType w =
     (let (a, w1) = getAddress addressType w
      in snd (i2c_write_byte b a BANK_B_COLOR val w1))"

definition SetBankColorC :: "bus \<Rightarrow> u8 \<Rightarrow> EAddressType \<Rightarrow> world \<Rightarrow> world" where
  "SetBankColorC b val addressType w =
     (let (a, w1) = getAddress addressType w
      in snd (i2c_write_byte b a BANK_C_COLOR val w1))"

text \<open>
  \<open>buff\<close> is a local array of three bytes; every label of the switch assigns all three
  elements, and the switch reads \<open>_led_configuration\<close> once.
\<close>

definition SetBankColor :: "bus \<Rightarrow> u8 \<Rightarrow> u8 \<Rightarrow> u8 \<Rightarrow> EAddressType \<Rightarrow> world \<Rightarrow> world" where
  "SetBankColor bs r g b addressType w =
     (let w1 = SetAutoIncrement bs AUTO_INC_ON w;
          buff = (case led_configuration (self w1) of
                    RGB \<Rightarrow> [r, g, b]
                  | GRB \<Rightarrow> [g, r, b]
                  | BGR \<Rightarrow> [b, g, r]
                  | RBG \<Rightarrow> [r, b, g]
                  | GBR \<Rightarrow> [g, b, r]
                  | BRG \<Rightarrow> [b, r, g]);
          (a, w2) = getAddress addressType w1
      in snd (i2c_write_multi bs a BANK_A_COLOR buff 3 w2))"

subsection \<open>Output control functions\<close>

definition SetLEDBrightness :: "bus \<Rightarrow> u8 \<Rightarrow> u8 \<Rightarrow> EAddressType \<Rightarrow> world \<Rightarrow> world" where
  "SetLEDBrightness b led brighness addressType w =
     (let (a, w1) = getAddress addressType w
      in snd (i2c_write_byte b a (LED0_BRIGHTNESS + uint led) brighness w1))"

definition SetOutputColor :: "bus \<Rightarrow> u8 \<Rightarrow> u8 \<Rightarrow> EAddressType \<Rightarrow> world \<Rightarrow> world" where
  "SetOutputColor b output val addressType w =
     (let (a, w1) = getAddress addressType w
      in snd (i2c_write_byte b a (OUT0_COLOR + uint output) val w1))"

definition SetLEDColor ::
  "bus \<Rightarrow> u8 \<Rightarrow> u8 \<Rightarrow> u8 \<Rightarrow> u8 \<Rightarrow> EAddressType \<Rightarrow> world \<Rightarrow> world" where
  "SetLEDColor bs led r g b addressType w =
     (let w1 = SetAutoIncrement bs AUTO_INC_ON w;
          buff = (case led_configuration (self w1) of
                    RGB \<Rightarrow> [r, g, b]
                  | GRB \<Rightarrow> [g, r, b]
                  | BGR \<Rightarrow> [b, g, r]
                  | RBG \<Rightarrow> [r, b, g]
                  | GBR \<Rightarrow> [g, b, r]
                  | BRG \<Rightarrow> [b, r, g]);
          (a, w2) = getAddress addressType w1
      in snd (i2c_write_multi bs a (OUT0_COLOR + (uint led * 3)) buff 3 w2))"

subsection \<open>Low level functions\<close>

definition WriteRegister :: "bus \<Rightarrow> u8 \<Rightarrow> u8 \<Rightarrow> EAddressType \<Rightarrow> world \<Rightarrow> world" where
  "WriteRegister b reg val addressType w =
     (let (a, w1) = getAddress addressType w
      in snd (i2c_write_byte b a (uint reg) val w1))"

text \<open>The result is the byte left in \<open>*value\<close>, and the world.\<close>

definition ReadRegister :: "bus \<Rightarrow> u8 \<Rightarrow> world \<Rightarrow> u8 \<times> world" where
  "ReadRegister b reg w =
     (let (st, v, w1) = i2c_read_byte b (i2c_address (self w)) (uint reg) w
      in (v, w1))"

subsection \<open>Concrete inputs\<close>

text \<open>
  An object as the member initialisers of the class leave it (no enable pin, RGB, the
  broadcast address), with the default address as its address, before any primitive call;
  and a device that acknowledges everything and reads as zero.
\<close>

definition example_world :: world where
  "example_world =
     \<lparr>self = \<lparr>i2c_address = DEFAULT_ADDRESS, i2c_address_broadcast = BROADCAST_ADDRESS,
              enable_pin = 0xFF, led_configuration = RGB\<rparr>,
      trace = []\<rparr>"

definition example_bus :: bus where
  "example_bus =
     \<lparr>read_reply = (\<lambda>h a r. 0), read_status = (\<lambda>h a r. True),
      write_status = (\<lambda>h a r d. True)\<rparr>"

text \<open>What a read of the configuration register at the object's own address returns.\<close>

abbreviation config_reply :: "bus \<Rightarrow> world \<Rightarrow> u8" where
  "config_reply b w \<equiv> read_reply b (trace w) (i2c_address (self w)) DEVICE_CONFIG1"

text \<open>The primitive calls made between a world and a later one.\<close>

abbreviation added :: "world \<Rightarrow> world \<Rightarrow> event list" where
  "added w w' \<equiv> drop (length (trace w)) (trace w')"

section \<open>What each member function does\<close>

text \<open>
  Each member function, as the object it leaves and the primitive calls it adds to the
  trace.
\<close>

lemmas prim_defs = emit_def i2c_init_def pinMode_def digitalWrite_def delayMicroseconds_def
  delay_def i2c_write_byte_def i2c_read_byte_def i2c_write_multi_def

lemma test_bit_iff: "(drop_bit k (x AND push_bit k 1) AND 1 \<noteq> 0) = bit x k" for x :: u8
proof -
  have "bit x k \<Longrightarrow> k < 8" using bit_imp_le_length [of x k] by simp
  then show ?thesis
    by (auto simp add: and_one_eq bit_simps simp flip: bit_0 odd_iff_mod_2_eq_one)
qed

lemma field_bit:
  "(if drop_bit k (x AND push_bit k 1) AND 1 \<noteq> 0 then v OR push_bit k 1
    else v AND NOT (push_bit k 1))
   = (if bit x k then set_bit k v else unset_bit k v)" for x v :: u8
  unfolding test_bit_iff by (simp add: set_bit_eq_or unset_bit_eq_and_not)

lemma bit_field:
  "k < 8 \<Longrightarrow> bit (if bit x k then set_bit k v else unset_bit k v) n
     = (if n = k then bit x k else bit v n)" for x v :: u8
  by (auto simp add: bit_simps)

lemma field_write:
  "k < 8 \<Longrightarrow>
   \<exists>v'. w\<lparr>trace := trace w @ [Ev_i2c_read_byte a r v,
            Ev_i2c_write_byte a r (if bit x k then set_bit k v else unset_bit k v)]\<rparr>
        = w\<lparr>trace := trace w @ [Ev_i2c_read_byte a r v, Ev_i2c_write_byte a r v']\<rparr>
      \<and> (\<forall>n. bit v' n = (if n = k then bit x k else bit v n))" for x v :: u8
  using bit_field [of k x v] by blast

lemma getAddress_fst:
  "fst (getAddress t w) =
     (if t = Broadcast then i2c_address_broadcast (self w) else i2c_address (self w))"
  by (simp add: getAddress_def)

lemma SetScaling_eq:
  "SetScaling b x w =
     w\<lparr>trace := trace w @
        [Ev_i2c_read_byte (i2c_address (self w)) DEVICE_CONFIG1 (config_reply b w),
         Ev_i2c_write_byte (i2c_address (self w)) DEVICE_CONFIG1
           (if bit x 5 then set_bit 5 (config_reply b w) else unset_bit 5 (config_reply b w))]\<rparr>"
  unfolding SetScaling_def prim_defs Let_def field_bit by simp

lemma SetPowerSaving_eq:
  "SetPowerSaving b x w =
     w\<lparr>trace := trace w @
        [Ev_i2c_read_byte (i2c_address (self w)) DEVICE_CONFIG1 (config_reply b w),
         Ev_i2c_write_byte (i2c_address (self w)) DEVICE_CONFIG1
           (if bit x 4 then set_bit 4 (config_reply b w) else unset_bit 4 (config_reply b w))]\<rparr>"
  unfolding SetPowerSaving_def prim_defs Let_def field_bit by simp

lemma SetAutoIncrement_eq:
  "SetAutoIncrement b x w =
     w\<lparr>trace := trace w @
        [Ev_i2c_read_byte (i2c_address (self w)) DEVICE_CONFIG1 (config_reply b w),
         Ev_i2c_write_byte (i2c_address (self w)) DEVICE_CONFIG1
           (if bit x 3 then set_bit 3 (config_reply b w) else unset_bit 3 (config_reply b w))]\<rparr>"
  unfolding SetAutoIncrement_def prim_defs Let_def field_bit by simp

lemma SetPWMDithering_eq:
  "SetPWMDithering b x w =
     w\<lparr>trace := trace w @
        [Ev_i2c_read_byte (i2c_address (self w)) DEVICE_CONFIG1 (config_reply b w),
         Ev_i2c_write_byte (i2c_address (self w)) DEVICE_CONFIG1
           (if bit x 2 then set_bit 2 (config_reply b w) else unset_bit 2 (config_reply b w))]\<rparr>"
  unfolding SetPWMDithering_def prim_defs Let_def field_bit by simp

lemma SetMaxCurrentOption_eq:
  "SetMaxCurrentOption b x w =
     w\<lparr>trace := trace w @
        [Ev_i2c_read_byte (i2c_address (self w)) DEVICE_CONFIG1 (config_reply b w),
         Ev_i2c_write_byte (i2c_address (self w)) DEVICE_CONFIG1
           (if bit x 1 then set_bit 1 (config_reply b w) else unset_bit 1 (config_reply b w))]\<rparr>"
  unfolding SetMaxCurrentOption_def prim_defs Let_def field_bit by simp

lemma SetGlobalLedOff_eq:
  "SetGlobalLedOff b x w =
     w\<lparr>trace := trace w @
        [Ev_i2c_read_byte (i2c_address (self w)) DEVICE_CONFIG1 (config_reply b w),
         Ev_i2c_write_byte (i2c_address (self w)) DEVICE_CONFIG1
           (if bit x 0 then set_bit 0 (config_reply b w) else unset_bit 0 (config_reply b w))]\<rparr>"
  unfolding SetGlobalLedOff_def prim_defs Let_def field_bit by simp

lemma force_auto_increment:
  "SetAutoIncrement b AUTO_INC_ON w =
     w\<lparr>trace := trace w @
        [Ev_i2c_read_byte (i2c_address (self w)) DEVICE_CONFIG1 (config_reply b w),
         Ev_i2c_write_byte (i2c_address (self w)) DEVICE_CONFIG1 (set_bit 3 (config_reply b w))]\<rparr>"
  by (simp add: SetAutoIncrement_eq AUTO_INC_ON_def bit_simps)

lemma SetBankColor_eq:
  "SetBankColor bs r g b t w =
     w\<lparr>trace := trace w @
        [Ev_i2c_read_byte (i2c_address (self w)) DEVICE_CONFIG1 (config_reply bs w),
         Ev_i2c_write_byte (i2c_address (self w)) DEVICE_CONFIG1 (set_bit 3 (config_reply bs w)),
         Ev_i2c_write_multi (fst (getAddress t w)) BANK_A_COLOR
           (case led_configuration (self w) of
              RGB \<Rightarrow> [r, g, b] | GRB \<Rightarrow> [g, r, b] | BGR \<Rightarrow> [b, g, r]
            | RBG \<Rightarrow> [r, b, g] | GBR \<Rightarrow> [g, b, r] | BRG \<Rightarrow> [b, r, g])]\<rparr>"
  by (simp add: SetBankColor_def force_auto_increment getAddress_def i2c_write_multi_def
      emit_def split: LED_Configuration.split)

lemma SetLEDColor_eq:
  "SetLEDColor bs led r g b t w =
     w\<lparr>trace := trace w @
        [Ev_i2c_read_byte (i2c_address (self w)) DEVICE_CONFIG1 (config_reply bs w),
         Ev_i2c_write_byte (i2c_address (self w)) DEVICE_CONFIG1 (set_bit 3 (config_reply bs w)),
         Ev_i2c_write_multi (fst (getAddress t w)) (OUT0_COLOR + uint led * 3)
           (case led_configuration (self w) of
              RGB \<Rightarrow> [r, g, b] | GRB \<Rightarrow> [g, r, b] | BGR \<Rightarrow> [b, g, r]
            | RBG \<Rightarrow> [r, b, g] | GBR \<Rightarrow> [g, b, r] | BRG \<Rightarrow> [b, r, g])]\<rparr>"
  by (simp add: SetLEDColor_def force_auto_increment getAddress_def i2c_write_multi_def
      emit_def split: LED_Configuration.split)

lemma Begin_eq:
  "Begin b a w =
     (True,
      \<lparr>self = (self w)\<lparr>i2c_address := a\<rparr>,
       trace = trace w @ [Ev_i2c_init] @
         (if enable_pin (self w) \<noteq> 0xFF then [Ev_digitalWrite (enable_pin (self w)) HIGH] else []) @
         [Ev_delayMicroseconds 500, Ev_i2c_write_byte a DEVICE_CONFIG0 0x40]\<rparr>)"
  by (simp add: Begin_def prim_defs Let_def)

lemma ResetRegisters_eq:
  "ResetRegisters b t w =
     w\<lparr>trace := trace w @ [Ev_i2c_write_byte (fst (getAddress t w)) RESET_REGISTERS 0xFF]\<rparr>"
  by (simp add: ResetRegisters_def getAddress_def prim_defs)

lemma Reset_eq:
  "Reset b w =
     w\<lparr>trace := trace w @
        (if enable_pin (self w) \<noteq> 0xFF
         then [Ev_digitalWrite (enable_pin (self w)) LOW, Ev_delay 10,
               Ev_digitalWrite (enable_pin (self w)) HIGH, Ev_delayMicroseconds 500]
         else []) @
        [Ev_i2c_write_byte (i2c_address (self w)) RESET_REGISTERS 0xFF,
         Ev_i2c_write_byte (i2c_address (self w)) DEVICE_CONFIG0 0x40]\<rparr>"
  by (simp add: Reset_def ResetRegisters_eq getAddress_def Normal_def Broadcast_def prim_defs Let_def)

lemma Configure_eq:
  "Configure b c t w =
     w\<lparr>trace := trace w @ [Ev_i2c_write_byte (fst (getAddress t w)) DEVICE_CONFIG1 (c AND 0x3F)]\<rparr>"
  by (simp add: Configure_def getAddress_def prim_defs)

lemma SetLEDBrightness_eq:
  "SetLEDBrightness b led v t w =
     w\<lparr>trace := trace w @
        [Ev_i2c_write_byte (fst (getAddress t w)) (LED0_BRIGHTNESS + uint led) v]\<rparr>"
  by (simp add: SetLEDBrightness_def getAddress_def prim_defs)

lemma SetOutputColor_eq:
  "SetOutputColor b out v t w =
     w\<lparr>trace := trace w @
        [Ev_i2c_write_byte (fst (getAddress t w)) (OUT0_COLOR + uint out) v]\<rparr>"
  by (simp add: SetOutputColor_def getAddress_def prim_defs)

section \<open>The claims of the specification\<close>

text \<open>
  Claim C1. For each of the six channel orders and every (r, g, b), the three bytes that
  \<open>SetBankColor\<close> and \<open>SetLEDColor\<close> send in their burst are the documented triple:
  RGB gives (r, g, b), GRB (g, r, b), BGR (b, g, r), RBG (r, b, g), GBR (g, b, r) and
  BRG (b, r, g); with GRB, (0x10, 0x20, 0x30) is sent as (0x20, 0x10, 0x30). The bytes
  depend on nothing but the order and the three values: not on the device, the address
  type, the led or the rest of the world.
\<close>

theorem permutation_table:
  "last (trace (SetBankColor bs r g b t (SetLEDConfiguration RGB w)))
     = Ev_i2c_write_multi (fst (getAddress t w)) BANK_A_COLOR [r, g, b]
   \<and> last (trace (SetBankColor bs r g b t (SetLEDConfiguration GRB w)))
     = Ev_i2c_write_multi (fst (getAddress t w)) BANK_A_COLOR [g, r, b]
   \<and> last (trace (SetBankColor bs r g b t (SetLEDConfiguration BGR w)))
     = Ev_i2c_write_multi (fst (getAddress t w)) BANK_A_COLOR [b, g, r]
   \<and> last (trace (SetBankColor bs r g b t (SetLEDConfiguration RBG w)))
     = Ev_i2c_write_multi (fst (getAddress t w)) BANK_A_COLOR [r, b, g]
   \<and> last (trace (SetBankColor bs r g b t (SetLEDConfiguration GBR w)))
     = Ev_i2c_write_multi (fst (getAddress t w)) BANK_A_COLOR [g, b, r]
   \<and> last (trace (SetBankColor bs r g b t (SetLEDConfiguration BRG w)))
     = Ev_i2c_write_multi (fst (getAddress t w)) BANK_A_COLOR [b, r, g]
   \<and> last (trace (SetLEDColor bs led r g b t (SetLEDConfiguration RGB w)))
     = Ev_i2c_write_multi (fst (getAddress t w)) (OUT0_COLOR + uint led * 3) [r, g, b]
   \<and> last (trace (SetLEDColor bs led r g b t (SetLEDConfiguration GRB w)))
     = Ev_i2c_write_multi (fst (getAddress t w)) (OUT0_COLOR + uint led * 3) [g, r, b]
   \<and> last (trace (SetLEDColor bs led r g b t (SetLEDConfiguration BGR w)))
     = Ev_i2c_write_multi (fst (getAddress t w)) (OUT0_COLOR + uint led * 3) [b, g, r]
   \<and> last (trace (SetLEDColor bs led r g b t (SetLEDConfiguration RBG w)))
     = Ev_i2c_write_multi (fst (getAddress t w)) (OUT0_COLOR + uint led * 3) [r, b, g]
   \<and> last (trace (SetLEDColor bs led r g b t (SetLEDConfiguration GBR w)))
     = Ev_i2c_write_multi (fst (getAddress t w)) (OUT0_COLOR + uint led * 3) [g, b, r]
   \<and> last (trace (SetLEDColor bs led r g b t (SetLEDConfiguration BRG w)))
     = Ev_i2c_write_multi (fst (getAddress t w)) (OUT0_COLOR + uint led * 3) [b, r, g]
   \<and> last (trace (SetBankColor bs 0x10 0x20 0x30 t (SetLEDConfiguration GRB w)))
     = Ev_i2c_write_multi (fst (getAddress t w)) BANK_A_COLOR [0x20, 0x10, 0x30]
   \<and> last (trace (SetLEDColor bs led 0x10 0x20 0x30 t (SetLEDConfiguration GRB w)))
     = Ev_i2c_write_multi (fst (getAddress t w)) (OUT0_COLOR + uint led * 3) [0x20, 0x10, 0x30]"
  by (simp add: SetBankColor_eq SetLEDColor_eq SetLEDConfiguration_def getAddress_fst)

text \<open>
  Claim C2. \<open>getAddress\<close> gives the object's own address for \<open>Normal\<close>, the
  broadcast address for \<open>Broadcast\<close>, and for any other value of the selector what it
  gives for \<open>Normal\<close>; it leaves the object and the trace as they are.
\<close>

theorem getAddress_resolution:
  "fst (getAddress Normal w) = i2c_address (self w)
   \<and> fst (getAddress Broadcast w) = i2c_address_broadcast (self w)
   \<and> (t \<noteq> Normal \<and> t \<noteq> Broadcast \<longrightarrow> fst (getAddress t w) = fst (getAddress Normal w))
   \<and> snd (getAddress t w) = w"
  by (simp add: getAddress_def Normal_def Broadcast_def)

text \<open>
  The selector 7 is neither enumerator; on the example object it resolves to 0x14, the
  object's own address.
\<close>

theorem getAddress_resolution_witness:
  "(7 :: EAddressType) \<noteq> Normal \<and> (7 :: EAddressType) \<noteq> Broadcast
   \<and> fst (getAddress 7 example_world) = 0x14
   \<and> fst (getAddress Normal example_world) = 0x14
   \<and> fst (getAddress Broadcast example_world) = 0x0C
   \<and> snd (getAddress 7 example_world) = example_world"
  using getAddress_resolution [of example_world 7]
  by (simp add: Normal_def Broadcast_def example_world_def DEFAULT_ADDRESS_def
      BROADCAST_ADDRESS_def)

text \<open>
  Claim C3. For every address, \<open>Begin\<close> initialises the bus, stores the address,
  drives the enable pin high when there is one (the member is not 0xFF), waits 500
  microseconds and writes the byte 0x40 to register 0x00 at the address just stored, in
  this order and with no other primitive call. In 0x40 bit 6 is set and no other bit.
\<close>

theorem Begin_sequence:
  "snd (Begin bs address w) =
     \<lparr>self = (self w)\<lparr>i2c_address := address\<rparr>,
      trace = trace w @ [Ev_i2c_init] @
        (if enable_pin (self w) \<noteq> 0xFF
         then [Ev_digitalWrite (enable_pin (self w)) HIGH] else []) @
        [Ev_delayMicroseconds 500, Ev_i2c_write_byte address 0x00 0x40]\<rparr>
   \<and> (\<forall>n. bit (0x40 :: u8) n \<longleftrightarrow> n = 6)"
proof -
  have "bit (0x40 :: u8) n \<longleftrightarrow> n = 6" for n
  proof -
    have "(0x40 :: u8) = push_bit 6 1" by simp
    then show ?thesis by (simp only: bit_simps) auto
  qed
  then show ?thesis by (simp add: Begin_eq DEVICE_CONFIG0_def)
qed

text \<open>
  Claim C4. \<open>Begin\<close> returns \<open>true\<close> whatever the address and whatever the device
  answers. No member function that touches the bus lets the status of a read or of a write
  through: with the statuses replaced by any others, it returns the same value and leaves
  the same world.
\<close>

theorem bus_status_not_surfaced:
  "fst (Begin bs address w) = True
   \<and> Begin (bs\<lparr>read_status := f, write_status := h\<rparr>) address w = Begin bs address w
   \<and> Reset (bs\<lparr>read_status := f, write_status := h\<rparr>) w = Reset bs w
   \<and> ResetRegisters (bs\<lparr>read_status := f, write_status := h\<rparr>) t w = ResetRegisters bs t w
   \<and> Configure (bs\<lparr>read_status := f, write_status := h\<rparr>) x t w = Configure bs x t w
   \<and> SetScaling (bs\<lparr>read_status := f, write_status := h\<rparr>) x w = SetScaling bs x w
   \<and> SetPowerSaving (bs\<lparr>read_status := f, write_status := h\<rparr>) x w = SetPowerSaving bs x w
   \<and> SetAutoIncrement (bs\<lparr>read_status := f, write_status := h\<rparr>) x w
       = SetAutoIncrement bs x w
   \<and> SetPWMDithering (bs\<lparr>read_status := f, write_status := h\<rparr>) x w
       = SetPWMDithering bs x w
   \<and> SetMaxCurrentOption (bs\<lparr>read_status := f, write_status := h\<rparr>) x w
       = SetMaxCurrentOption bs x w
   \<and> SetGlobalLedOff (bs\<lparr>read_status := f, write_status := h\<rparr>) x w
       = SetGlobalLedOff bs x w
   \<and> SetBankControl (bs\<lparr>read_status := f, write_status := h\<rparr>) x t w
       = SetBankControl bs x t w
   \<and> SetBankBrightness (bs\<lparr>read_status := f, write_status := h\<rparr>) x t w
       = SetBankBrightness bs x t w
   \<and> SetBankColorA (bs\<lparr>read_status := f, write_status := h\<rparr>) x t w
       = SetBankColorA bs x t w
   \<and> SetBankColorB (bs\<lparr>read_status := f, write_status := h\<rparr>) x t w
       = SetBankColorB bs x t w
   \<and> SetBankColorC (bs\<lparr>read_status := f, write_status := h\<rparr>) x t w
       = SetBankColorC bs x t w
   \<and> SetBankColor (bs\<lparr>read_status := f, write_status := h\<rparr>) r g b t w
       = SetBankColor bs r g b t w
   \<and> SetLEDBrightness (bs\<lparr>read_status := f, write_status := h\<rparr>) led x t w
       = SetLEDBrightness bs led x t w
   \<and> SetOutputColor (bs\<lparr>read_status := f, write_status := h\<rparr>) led x t w
       = SetOutputColor bs led x t w
   \<and> SetLEDColor (bs\<lparr>read_status := f, write_status := h\<rparr>) led r g b t w
       = SetLEDColor bs led r g b t w
   \<and> WriteRegister (bs\<lparr>read_status := f, write_status := h\<rparr>) reg x t w
       = WriteRegister bs reg x t w
   \<and> ReadRegister (bs\<lparr>read_status := f, write_status := h\<rparr>) reg w = ReadRegister bs reg w"
proof -
  have wr: "snd (i2c_write_byte (bs\<lparr>read_status := f, write_status := h\<rparr>) a r v u)
      = snd (i2c_write_byte bs a r v u)" for a r v u
    by (simp add: i2c_write_byte_def)
  have wm: "snd (i2c_write_multi (bs\<lparr>read_status := f, write_status := h\<rparr>) a r d n u)
      = snd (i2c_write_multi bs a r d n u)" for a r d n u
    by (simp add: i2c_write_multi_def)
  have rd: "snd (i2c_read_byte (bs\<lparr>read_status := f, write_status := h\<rparr>) a r u)
      = snd (i2c_read_byte bs a r u)" for a r u
    by (simp add: i2c_read_byte_def Let_def)
  show ?thesis
    by (simp add: Begin_eq Reset_eq ResetRegisters_eq Configure_eq SetScaling_eq
      SetPowerSaving_eq SetAutoIncrement_eq SetPWMDithering_eq SetMaxCurrentOption_eq
      SetGlobalLedOff_eq SetBankColor_eq SetLEDColor_eq SetLEDBrightness_eq SetOutputColor_eq
      SetBankControl_def SetBankBrightness_def SetBankColorA_def SetBankColorB_def
      SetBankColorC_def WriteRegister_def ReadRegister_def wr wm rd getAddress_def
      split_beta)
qed

text \<open>
  Claim C5. \<open>Reset\<close> with an enable pin drives the pin low, waits 10 ms, drives it
  high, waits 500 microseconds, writes 0xFF to register 0x27 and writes 0x40 to register
  0x00; without an enable pin it makes the two writes only. Both writes go to the object's
  own address.
\<close>

theorem Reset_sequence:
  "Reset bs w =
     w\<lparr>trace := trace w @
        (if enable_pin (self w) \<noteq> 0xFF
         then [Ev_digitalWrite (enable_pin (self w)) LOW, Ev_delay 10,
               Ev_digitalWrite (enable_pin (self w)) HIGH, Ev_delayMicroseconds 500]
         else []) @
        [Ev_i2c_write_byte (i2c_address (self w)) 0x27 0xFF,
         Ev_i2c_write_byte (i2c_address (self w)) 0x00 0x40]\<rparr>"
  by (simp add: Reset_eq RESET_REGISTERS_def DEVICE_CONFIG0_def)

text \<open>
  Claim C6. Each of the six setters reads register 0x01 once and then writes it once,
  both at the object's own address; in the byte written the setter's bit (5 for
  \<open>SetScaling\<close>, 4 for \<open>SetPowerSaving\<close>, 3 for \<open>SetAutoIncrement\<close>, 2 for
  \<open>SetPWMDithering\<close>, 1 for \<open>SetMaxCurrentOption\<close>, 0 for \<open>SetGlobalLedOff\<close>) is
  that bit of the argument and every other bit is as read. When the read gives
  0b00000000, \<open>SetAutoIncrement(AUTO_INC_ON)\<close> writes 0b00001000; when it gives
  0b00101000, \<open>SetAutoIncrement(AUTO_INC_OFF)\<close> writes 0b00100000.
\<close>

theorem bitfield_setters:
  "(\<exists>v'. SetScaling bs x w = w\<lparr>trace := trace w @
        [Ev_i2c_read_byte (i2c_address (self w)) 0x01 (config_reply bs w),
         Ev_i2c_write_byte (i2c_address (self w)) 0x01 v']\<rparr>
      \<and> (\<forall>n. bit v' n = (if n = 5 then bit x 5 else bit (config_reply bs w) n)))
   \<and> (\<exists>v'. SetPowerSaving bs x w = w\<lparr>trace := trace w @
        [Ev_i2c_read_byte (i2c_address (self w)) 0x01 (config_reply bs w),
         Ev_i2c_write_byte (i2c_address (self w)) 0x01 v']\<rparr>
      \<and> (\<forall>n. bit v' n = (if n = 4 then bit x 4 else bit (config_reply bs w) n)))
   \<and> (\<exists>v'. SetAutoIncrement bs x w = w\<lparr>trace := trace w @
        [Ev_i2c_read_byte (i2c_address (self w)) 0x01 (config_reply bs w),
         Ev_i2c_write_byte (i2c_address (self w)) 0x01 v']\<rparr>
      \<and> (\<forall>n. bit v' n = (if n = 3 then bit x 3 else bit (config_reply bs w) n)))
   \<and> (\<exists>v'. SetPWMDithering bs x w = w\<lparr>trace := trace w @
        [Ev_i2c_read_byte (i2c_address (self w)) 0x01 (config_reply bs w),
         Ev_i2c_write_byte (i2c_address (self w)) 0x01 v']\<rparr>
      \<and> (\<forall>n. bit v' n = (if n = 2 then bit x 2 else bit (config_reply bs w) n)))
   \<and> (\<exists>v'. SetMaxCurrentOption bs x w = w\<lparr>trace := trace w @
        [Ev_i2c_read_byte (i2c_address (self w)) 0x01 (config_reply bs w),
         Ev_i2c_write_byte (i2c_address (self w)) 0x01 v']\<rparr>
      \<and> (\<forall>n. bit v' n = (if n = 1 then bit x 1 else bit (config_reply bs w) n)))
   \<and> (\<exists>v'. SetGlobalLedOff bs x w = w\<lparr>trace := trace w @
        [Ev_i2c_read_byte (i2c_address (self w)) 0x01 (config_reply bs w),
         Ev_i2c_write_byte (i2c_address (self w)) 0x01 v']\<rparr>
      \<and> (\<forall>n. bit v' n = (if n = 0 then bit x 0 else bit (config_reply bs w) n)))
   \<and> (added w (SetAutoIncrement (bs\<lparr>read_reply := \<lambda>h a r. 0b00000000\<rparr>) AUTO_INC_ON w)
      = [Ev_i2c_read_byte (i2c_address (self w)) 0x01 0b00000000,
         Ev_i2c_write_byte (i2c_address (self w)) 0x01 0b00001000])
   \<and> (added w (SetAutoIncrement (bs\<lparr>read_reply := \<lambda>h a r. 0b00101000\<rparr>) AUTO_INC_OFF w)
      = [Ev_i2c_read_byte (i2c_address (self w)) 0x01 0b00101000,
         Ev_i2c_write_byte (i2c_address (self w)) 0x01 0b00100000])"
  unfolding SetScaling_eq SetPowerSaving_eq SetAutoIncrement_eq SetPWMDithering_eq
    SetMaxCurrentOption_eq SetGlobalLedOff_eq DEVICE_CONFIG1_def
  by (intro conjI field_write) (simp_all add: AUTO_INC_ON_def AUTO_INC_OFF_def bit_simps)

text \<open>
  Claim C7. \<open>SetBankColor\<close> and \<open>SetLEDColor\<close> first read register 0x01 and write
  it back with bit 3 set and the other bits as read, then make exactly one burst write of
  three bytes, starting at register 0x04 for the bank and at 0x0F + led * 3 for a led.
  The three bytes are one permutation of (r, g, b), chosen by the channel order the
  object holds when the function is called, and the two functions choose the same one.
\<close>

theorem color_burst_sequence:
  "SetBankColor bs r g b t w =
     w\<lparr>trace := trace w @
        [Ev_i2c_read_byte (i2c_address (self w)) 0x01 (config_reply bs w),
         Ev_i2c_write_byte (i2c_address (self w)) 0x01 (set_bit 3 (config_reply bs w)),
         Ev_i2c_write_multi (fst (getAddress t w)) 0x04
           (case led_configuration (self w) of
              RGB \<Rightarrow> [r, g, b] | GRB \<Rightarrow> [g, r, b] | BGR \<Rightarrow> [b, g, r]
            | RBG \<Rightarrow> [r, b, g] | GBR \<Rightarrow> [g, b, r] | BRG \<Rightarrow> [b, r, g])]\<rparr>
   \<and> SetLEDColor bs led r g b t w =
     w\<lparr>trace := trace w @
        [Ev_i2c_read_byte (i2c_address (self w)) 0x01 (config_reply bs w),
         Ev_i2c_write_byte (i2c_address (self w)) 0x01 (set_bit 3 (config_reply bs w)),
         Ev_i2c_write_multi (fst (getAddress t w)) (0x0F + uint led * 3)
           (case led_configuration (self w) of
              RGB \<Rightarrow> [r, g, b] | GRB \<Rightarrow> [g, r, b] | BGR \<Rightarrow> [b, g, r]
            | RBG \<Rightarrow> [r, b, g] | GBR \<Rightarrow> [g, b, r] | BRG \<Rightarrow> [b, r, g])]\<rparr>
   \<and> length (case led_configuration (self w) of
              RGB \<Rightarrow> [r, g, b] | GRB \<Rightarrow> [g, r, b] | BGR \<Rightarrow> [b, g, r]
            | RBG \<Rightarrow> [r, b, g] | GBR \<Rightarrow> [g, b, r] | BRG \<Rightarrow> [b, r, g]) = 3
   \<and> (\<forall>n. bit (set_bit 3 (config_reply bs w)) n = (if n = 3 then True else bit (config_reply bs w) n))"
proof -
  have "bit (set_bit 3 v) n = (if n = 3 then True else bit v n)" for v :: u8 and n
    by (auto simp add: bit_simps)
  then show ?thesis
    by (simp add: SetBankColor_eq SetLEDColor_eq BANK_A_COLOR_def OUT0_COLOR_def
        DEVICE_CONFIG1_def split: LED_Configuration.split)
qed

text \<open>
  Claim C8, as stated, has \<open>Configure\<close> write the caller's flags; it writes the flags
  masked with 0x3F. With flags 0xFF the byte written is 0x3F, not 0xFF.
\<close>

theorem Configure_flags_counterexample:
  "trace (Configure example_bus 0xFF Normal example_world)
     \<noteq> trace example_world @ [Ev_i2c_write_byte 0x14 0x01 0xFF]
   \<and> trace (Configure example_bus 0xFF Normal example_world)
     = trace example_world @ [Ev_i2c_write_byte 0x14 0x01 0x3F]"
  by (simp add: Configure_eq getAddress_fst example_world_def Normal_def Broadcast_def
      DEFAULT_ADDRESS_def DEVICE_CONFIG1_def)

text \<open>
  Claim C8, amended. For every flags byte and every address type, \<open>Configure\<close> reads
  nothing and writes register 0x01 once, at the resolved address, with the flags masked
  with 0x3F: bits 0 to 5 of the byte are those of the flags, bits 6 and 7 are 0.
\<close>

theorem Configure_single_write:
  "Configure bs flags t w =
     w\<lparr>trace := trace w @ [Ev_i2c_write_byte (fst (getAddress t w)) 0x01 (flags AND 0x3F)]\<rparr>
   \<and> (\<forall>n. bit (flags AND 0x3F) n = (n < 6 \<and> bit flags n))"
proof -
  have "(0x3F :: u8) = mask 6" by (simp add: mask_eq_exp_minus_1)
  then have "bit (flags AND 0x3F) n = (n < 6 \<and> bit flags n)" for n
    by (simp only: bit_and_iff bit_mask_iff) (auto dest: bit_imp_le_length)
  then show ?thesis by (simp add: Configure_eq DEVICE_CONFIG1_def)
qed

text \<open>
  Claim C9. For every led and value \<open>SetLEDBrightness\<close> makes one single-byte write
  of the value to register 0x07 + led, and for every output and value
  \<open>SetOutputColor\<close> makes one to register 0x0F + output, each at the resolved address.
  The index is not checked: led 200 gives register 207 and output 250 gives register 265,
  the sum as the caller computes it.
\<close>

theorem single_byte_writes:
  "SetLEDBrightness bs led val t w =
     w\<lparr>trace := trace w @ [Ev_i2c_write_byte (fst (getAddress t w)) (0x07 + uint led) val]\<rparr>
   \<and> SetOutputColor bs output val t w =
     w\<lparr>trace := trace w @ [Ev_i2c_write_byte (fst (getAddress t w)) (0x0F + uint output) val]\<rparr>
   \<and> added w (SetLEDBrightness bs 200 val t w)
     = [Ev_i2c_write_byte (fst (getAddress t w)) 207 val]
   \<and> added w (SetOutputColor bs 250 val t w)
     = [Ev_i2c_write_byte (fst (getAddress t w)) 265 val]"
  by (simp add: SetLEDBrightness_eq SetOutputColor_eq LED0_BRIGHTNESS_def OUT0_COLOR_def)

text \<open>
  Claim C10. In \<open>SetBankColor\<close> and \<open>SetLEDColor\<close> the read and the write of
  register 0x01 that force auto-increment go to the object's own address, whatever the
  address type; the address type decides the address of the burst only, which goes to
  the broadcast address for \<open>Broadcast\<close>. So when the two addresses differ, neither
  function accesses register 0x01 at the broadcast address.
\<close>

theorem auto_increment_addressing:
  "take 2 (added w (SetBankColor bs r g b t w))
     = [Ev_i2c_read_byte (i2c_address (self w)) DEVICE_CONFIG1 (config_reply bs w),
        Ev_i2c_write_byte (i2c_address (self w)) DEVICE_CONFIG1 (set_bit 3 (config_reply bs w))]
   \<and> take 2 (added w (SetLEDColor bs led r g b t w))
     = [Ev_i2c_read_byte (i2c_address (self w)) DEVICE_CONFIG1 (config_reply bs w),
        Ev_i2c_write_byte (i2c_address (self w)) DEVICE_CONFIG1 (set_bit 3 (config_reply bs w))]
   \<and> (\<exists>p. drop 2 (added w (SetBankColor bs r g b Broadcast w))
          = [Ev_i2c_write_multi (i2c_address_broadcast (self w)) BANK_A_COLOR p])
   \<and> (\<exists>p. drop 2 (added w (SetLEDColor bs led r g b Broadcast w))
          = [Ev_i2c_write_multi (i2c_address_broadcast (self w)) (OUT0_COLOR + uint led * 3) p])
   \<and> (i2c_address (self w) \<noteq> i2c_address_broadcast (self w) \<longrightarrow>
        (\<forall>v. Ev_i2c_write_byte (i2c_address_broadcast (self w)) DEVICE_CONFIG1 v
               \<notin> set (added w (SetBankColor bs r g b t w))
           \<and> Ev_i2c_read_byte (i2c_address_broadcast (self w)) DEVICE_CONFIG1 v
               \<notin> set (added w (SetBankColor bs r g b t w))
           \<and> Ev_i2c_write_byte (i2c_address_broadcast (self w)) DEVICE_CONFIG1 v
               \<notin> set (added w (SetLEDColor bs led r g b t w))
           \<and> Ev_i2c_read_byte (i2c_address_broadcast (self w)) DEVICE_CONFIG1 v
               \<notin> set (added w (SetLEDColor bs led r g b t w))))"
  by (simp add: SetBankColor_eq SetLEDColor_eq getAddress_fst)

text \<open>
  On the example object, 0x14 and 0x0C differ: with \<open>Broadcast\<close> the configuration
  register is read and written at 0x14 and only the burst goes to 0x0C.
\<close>

theorem auto_increment_addressing_witness:
  "i2c_address (self example_world) \<noteq> i2c_address_broadcast (self example_world)
   \<and> added example_world (SetBankColor example_bus 1 2 3 Broadcast example_world)
     = [Ev_i2c_read_byte 0x14 0x01 0, Ev_i2c_write_byte 0x14 0x01 0x08,
        Ev_i2c_write_multi 0x0C 0x04 [1, 2, 3]]
   \<and> Ev_i2c_write_byte 0x0C 0x01 0x08
        \<notin> set (added example_world (SetBankColor example_bus 1 2 3 Broadcast example_world))"
  using auto_increment_addressing [of example_world example_bus 1 2 3 Broadcast]
  by (simp add: SetBankColor_eq getAddress_fst example_world_def example_bus_def
      DEFAULT_ADDRESS_def BROADCAST_ADDRESS_def DEVICE_CONFIG1_def BANK_A_COLOR_def)

end
